theory Spec2Isabelle
  imports Complex_Main "HOL-Library.AList" "HOL-Library.Sublist"
begin

section \<open>Python values used by the pipeline\<close>

text \<open>
  The exceptions the pipeline code can raise by itself: a failed \<open>assert\<close>, indexing an
  empty list, a missing dictionary key and a float division by zero.
\<close>

datatype error = AssertionError | IndexError | KeyError string | ZeroDivisionError

text \<open>
  A Python \<open>dict\<close> keeps its keys in insertion order. It is an association list with
  distinct keys: \<open>d[k] = v\<close> is \<open>AList.update k v d\<close> (the value is replaced in place
  when the key exists, the pair is appended otherwise), \<open>d.pop(k, None)\<close> is
  \<open>AList.delete k d\<close>, \<open>k in d\<close> is \<open>dict_contains d k\<close> and \<open>d.keys()\<close> is
  \<open>map fst d\<close>.
\<close>

type_synonym ('k, 'v) dict = "('k \<times> 'v) list"

definition dict_contains :: "('k, 'v) dict \<Rightarrow> 'k \<Rightarrow> bool" where
  "dict_contains d k = (map_of d k \<noteq> None)"

definition dict_get :: "(string, 'v) dict \<Rightarrow> string \<Rightarrow> error + 'v" where
  "dict_get d k = (case map_of d k of None \<Rightarrow> Inl (KeyError k) | Some v \<Rightarrow> Inr v)"

text \<open>
  Metric values are Python floats (or zero-dimensional tensors); they are modelled as exact
  rationals, so rounding is not part of the model.
\<close>

type_synonym metrics = "(string, rat) dict"

section \<open>Loading a checkpoint: \<open>VanillaPipeline.load_pipeline\<close>\<close>

text \<open>
  \<open>str.replace(old, new)\<close>: one scan from left to right that replaces every
  non-overlapping occurrence of \<open>old\<close>; the text already produced is not scanned again.
\<close>

function str_replace :: "string \<Rightarrow> string \<Rightarrow> string \<Rightarrow> string" where
  "str_replace old new s =
     (if old = [] then new @ concat (map (\<lambda>c. c # new) s)
      else if s = [] then []
      else if prefix old s then new @ str_replace old new (drop (length old) s)
      else hd s # str_replace old new (tl s))"
  by pat_completeness auto
termination
  by (relation "measure (\<lambda>(old, new, s). length s)") auto

declare str_replace.simps [simp del]

text \<open>The six keys that \<open>load_pipeline\<close> pops when the pipeline is in inference mode.\<close>

definition inference_popped_keys :: "string list" where
  "inference_popped_keys =
     [''datamanager.train_camera_optimizer.pose_adjustment'',
      ''datamanager.train_ray_generator.image_coords'',
      ''datamanager.train_ray_generator.pose_optimizer.pose_adjustment'',
      ''datamanager.eval_camera_optimizer.pose_adjustment'',
      ''datamanager.eval_ray_generator.image_coords'',
      ''datamanager.eval_ray_generator.pose_optimizer.pose_adjustment'']"

text \<open>
  The dictionary that \<open>load_pipeline\<close> hands to \<open>load_state_dict\<close>: the comprehension
  over \<open>loaded_state.items()\<close>, then the six \<open>pop\<close>s when \<open>test_mode\<close> is
  \<open>inference\<close>.
\<close>

definition load_pipeline_state :: "string \<Rightarrow> (string, 'v) dict \<Rightarrow> (string, 'v) dict" where
  "load_pipeline_state test_mode loaded_state =
     (let state = fold (\<lambda>(key, val). AList.update (str_replace ''module.'' '''' key) val)
                       loaded_state []
      in if test_mode = ''inference'' then fold AList.delete inference_popped_keys state
         else state)"

text \<open>
  \<open>load_state_dict\<close> belongs to the module framework; it is a parameter here and
  \<open>load_pipeline\<close> applies it to the prepared dictionary.
\<close>

definition load_pipeline ::
  "((string, 'v) dict \<Rightarrow> 's \<Rightarrow> 'e + 's) \<Rightarrow> string \<Rightarrow> (string, 'v) dict \<Rightarrow> 's \<Rightarrow> 'e + 's" where
  "load_pipeline load_state_dict test_mode loaded_state self =
     load_state_dict (load_pipeline_state test_mode loaded_state) self"

text \<open>
  The reading of the specification's words, for comparison: only a leading
  \<open>module.\<close> is stripped from a key.
\<close>

definition spec_strip_prefix :: "string \<Rightarrow> string" where
  "spec_strip_prefix key = (if prefix ''module.'' key then drop 7 key else key)"

definition spec_load_pipeline_state :: "string \<Rightarrow> (string, 'v) dict \<Rightarrow> (string, 'v) dict" where
  "spec_load_pipeline_state test_mode loaded_state =
     (let state = fold (\<lambda>(key, val). AList.update (spec_strip_prefix key) val) loaded_state []
      in if test_mode = ''inference'' then fold AList.delete inference_popped_keys state
         else state)"

section \<open>Averaging the per-image metrics\<close>

text \<open>
  \<open>[metrics_dict[key] for metrics_dict in metrics_dict_list]\<close>: the first dictionary
  without the key raises \<open>KeyError\<close>.
\<close>

fun collect_key :: "string \<Rightarrow> (string, 'v) dict list \<Rightarrow> error + 'v list" where
  "collect_key key [] = Inr []"
| "collect_key key (d # ds) =
     (case dict_get d key of
        Inl e \<Rightarrow> Inl e
      | Inr v \<Rightarrow> (case collect_key key ds of Inl e \<Rightarrow> Inl e | Inr vs \<Rightarrow> Inr (v # vs)))"

text \<open>\<open>float(torch.mean(torch.tensor(vals)))\<close> in exact arithmetic.\<close>

definition tensor_mean :: "rat list \<Rightarrow> rat" where
  "tensor_mean vals = sum_list vals / of_nat (length vals)"

text \<open>The loop \<open>for key in metrics_dict_list[0].keys()\<close>, with the dictionary built so far.\<close>

fun average_keys :: "string list \<Rightarrow> metrics list \<Rightarrow> metrics \<Rightarrow> error + metrics" where
  "average_keys [] metrics_dict_list metrics_dict = Inr metrics_dict"
| "average_keys (key # keys) metrics_dict_list metrics_dict =
     (case collect_key key metrics_dict_list of
        Inl e \<Rightarrow> Inl e
      | Inr vals \<Rightarrow>
          average_keys keys metrics_dict_list (AList.update key (tensor_mean vals) metrics_dict))"

definition average_metrics :: "metrics list \<Rightarrow> error + metrics" where
  "average_metrics metrics_dict_list =
     (case metrics_dict_list of
        [] \<Rightarrow> Inl IndexError
      | first # _ \<Rightarrow> average_keys (map fst first) metrics_dict_list [])"

text \<open>The same loop for the images, with \<open>torch.stack\<close> as a parameter.\<close>

fun stack_keys ::
  "('t list \<Rightarrow> 't) \<Rightarrow> string list \<Rightarrow> (string, 't) dict list \<Rightarrow> (string, 't) dict
     \<Rightarrow> error + (string, 't) dict" where
  "stack_keys stack [] images_dict_list images_dict = Inr images_dict"
| "stack_keys stack (key # keys) images_dict_list images_dict =
     (case collect_key key images_dict_list of
        Inl e \<Rightarrow> Inl e
      | Inr imgs \<Rightarrow>
          stack_keys stack keys images_dict_list (AList.update key (stack imgs) images_dict))"

definition stack_images ::
  "('t list \<Rightarrow> 't) \<Rightarrow> (string, 't) dict list \<Rightarrow> error + (string, 't) dict" where
  "stack_images stack images_dict_list =
     (case images_dict_list of
        [] \<Rightarrow> Inl IndexError
      | first # _ \<Rightarrow> stack_keys stack (map fst first) images_dict_list [])"

section \<open>The pipeline state and its collaborators\<close>

text \<open>\<open>VanillaPipelineConfig\<close>, with the parameter-group name of the camera optimizer's config.\<close>

record vanilla_pipeline_config =
  camera_optimizer_param_group :: string
  eval_optimize_cameras :: bool
  eval_num_pose_iters :: int
  eval_optimize_appearance :: bool
  eval_num_appearance_iters :: int
  eval_image_scale_factor :: rat

text \<open>
  The calls to collaborators whose order and arguments matter below: a sampler's
  \<open>set_epoch\<close>, the fetch of a training or evaluation batch, and a full-image render
  (\<open>get_outputs_for_camera_ray_bundle\<close>) with the ray bundle it was given and whether
  gradient tracking was enabled around it.
\<close>

datatype 'r call =
    SetEpochTrain int
  | SetEpochEval int
  | NextTrain int
  | NextEval int
  | Render 'r bool

text \<open>
  The mutable state a pipeline method can touch. \<open>training\<close> is the module's mode flag
  (\<open>self.train()\<close> sets it, \<open>self.eval()\<close> clears it). A sampler is \<open>None\<close> or carries
  the epoch it was last given. \<open>world\<close> is everything else that belongs to the data
  manager, the model, the optimizers, the clock and the random generator.

  Modelled from the spec: \<open>Cameras.rescale_output_resolution\<close> is not part of the
  sources; \<open>resolution_scale\<close> is the resolution scale factor applied to the evaluation
  cameras, and a rescale by a factor multiplies it by that factor.
\<close>

record ('w, 'r) pipeline =
  config :: vanilla_pipeline_config
  test_mode :: string
  world_size :: int
  training :: bool
  train_sampler :: "int option"
  eval_sampler :: "int option"
  resolution_scale :: rat
  world :: 'w
  calls :: "'r call list"

definition rescale_output_resolution :: "rat \<Rightarrow> ('w, 'r) pipeline \<Rightarrow> ('w, 'r) pipeline" where
  "rescale_output_resolution scaling_factor p =
     p\<lparr>resolution_scale := resolution_scale p * scaling_factor\<rparr>"

definition record_call :: "'r call \<Rightarrow> ('w, 'r) pipeline \<Rightarrow> ('w, 'r) pipeline" where
  "record_call c p = p\<lparr>calls := calls p @ [c]\<rparr>"

text \<open>
  The data manager, the model, the tensor library, the clock and the random generator are
  not in the sources; the pipeline's methods take them as parameters. \<open>'r\<close> is a ray
  bundle and \<open>'t\<close> a tensor; a batch, the model outputs, a loss dictionary and an images
  dictionary are dictionaries of tensors.
\<close>

record ('w, 'r, 't) collaborators =
  dm_next_train :: "int \<Rightarrow> 'w \<Rightarrow> ('r \<times> (string, 't) dict) \<times> 'w"
  dm_next_eval :: "int \<Rightarrow> 'w \<Rightarrow> ('r \<times> (string, 't) dict) \<times> 'w"
  dm_next_eval_image :: "int \<Rightarrow> 'w \<Rightarrow> (nat \<times> 'r \<times> (string, 't) dict) \<times> 'w"
  dm_get_eval_image :: "('w, 'r) pipeline \<Rightarrow> nat \<Rightarrow> rat \<Rightarrow> 'r \<times> (string, 't) dict"
  dm_num_eval_images :: "'w \<Rightarrow> nat"
  dm_get_param_groups :: "'w \<Rightarrow> (string, 't list) dict"
  dm_initialize_parameters :: "'w \<Rightarrow> 'w"
  model_forward :: "('w, 'r) pipeline \<Rightarrow> 'r \<Rightarrow> (string, 't) dict option \<Rightarrow> (string, 't) dict"
  model_get_outputs_for_camera_ray_bundle ::
    "('w, 'r) pipeline \<Rightarrow> bool \<Rightarrow> 'r \<Rightarrow> (string, 't) dict"
  model_get_metrics_dict ::
    "('w, 'r) pipeline \<Rightarrow> (string, 't) dict \<Rightarrow> (string, 't) dict \<Rightarrow> metrics"
  model_get_loss_dict ::
    "('w, 'r) pipeline \<Rightarrow> (string, 't) dict \<Rightarrow> (string, 't) dict \<Rightarrow> metrics
       \<Rightarrow> (string, 't) dict"
  model_get_image_metrics_and_images ::
    "('w, 'r) pipeline \<Rightarrow> (string, 't) dict \<Rightarrow> (string, 't) dict
       \<Rightarrow> metrics \<times> (string, 't) dict"
  field_initialize_embedding_appearance_eval :: "'w \<Rightarrow> 'w"
  field_embedding_appearance_eval_parameters :: "'w \<Rightarrow> 't list"
  field_clear_embedding_appearance_eval :: "'w \<Rightarrow> 'w"
  adam :: "'t list \<Rightarrow> 'w \<Rightarrow> 'w"
  zero_grad :: "'w \<Rightarrow> 'w"
  backward :: "'t \<Rightarrow> 'w \<Rightarrow> 'w"
  optimizer_step :: "'w \<Rightarrow> 'w"
  random_choice :: "'w \<Rightarrow> nat \<times> 'w"
  py_time :: "'w \<Rightarrow> rat \<times> 'w"
  rb_shape :: "'r \<Rightarrow> nat \<times> nat"
  rb_len :: "'r \<Rightarrow> nat"
  translation_norm :: "'t \<Rightarrow> rat"
  rotation_norm :: "'t \<Rightarrow> rat"
  slice_left :: "nat \<Rightarrow> 't \<Rightarrow> 't"
  slice_right :: "nat \<Rightarrow> 't \<Rightarrow> 't"
  mse_loss :: "'t \<Rightarrow> 't \<Rightarrow> 't"
  torch_stack :: "'t list \<Rightarrow> 't"

section \<open>Training and evaluation losses\<close>

text \<open>
  \<open>sampler.set_epoch(step)\<close> behind \<open>assert sampler is not None\<close>, for the training
  and the evaluation sampler of the data manager.
\<close>

definition set_epoch_train :: "int \<Rightarrow> ('w, 'r) pipeline \<Rightarrow> error + ('w, 'r) pipeline" where
  "set_epoch_train step p =
     (case train_sampler p of
        None \<Rightarrow> Inl AssertionError
      | Some _ \<Rightarrow> Inr (record_call (SetEpochTrain step) (p\<lparr>train_sampler := Some step\<rparr>)))"

definition set_epoch_eval :: "int \<Rightarrow> ('w, 'r) pipeline \<Rightarrow> error + ('w, 'r) pipeline" where
  "set_epoch_eval step p =
     (case eval_sampler p of
        None \<Rightarrow> Inl AssertionError
      | Some _ \<Rightarrow> Inr (record_call (SetEpochEval step) (p\<lparr>eval_sampler := Some step\<rparr>)))"

definition next_train ::
  "('w, 'r, 't) collaborators \<Rightarrow> int \<Rightarrow> ('w, 'r) pipeline
     \<Rightarrow> ('r \<times> (string, 't) dict) \<times> ('w, 'r) pipeline" where
  "next_train c step p =
     (let (fetched, w) = dm_next_train c step (world p)
      in (fetched, record_call (NextTrain step) (p\<lparr>world := w\<rparr>)))"

definition next_eval ::
  "('w, 'r, 't) collaborators \<Rightarrow> int \<Rightarrow> ('w, 'r) pipeline
     \<Rightarrow> ('r \<times> (string, 't) dict) \<times> ('w, 'r) pipeline" where
  "next_eval c step p =
     (let (fetched, w) = dm_next_eval c step (world p)
      in (fetched, record_call (NextEval step) (p\<lparr>world := w\<rparr>)))"

text \<open>\<open>Pipeline.get_train_loss_dict\<close> of the abstract base class.\<close>

definition Pipeline_get_train_loss_dict ::
  "('w, 'r, 't) collaborators \<Rightarrow> int \<Rightarrow> ('w, 'r) pipeline
     \<Rightarrow> error + (((string, 't) dict \<times> (string, 't) dict \<times> metrics) \<times> ('w, 'r) pipeline)" where
  "Pipeline_get_train_loss_dict c step p =
     (case (if world_size p > 1 \<and> step \<noteq> 0 then set_epoch_train step p else Inr p) of
        Inl e \<Rightarrow> Inl e
      | Inr p1 \<Rightarrow>
          (let ((ray_bundle, batch), p2) = next_train c step p1;
               model_outputs = model_forward c p2 ray_bundle (Some batch);
               metrics_dict = model_get_metrics_dict c p2 model_outputs batch;
               loss_dict = model_get_loss_dict c p2 model_outputs batch metrics_dict
           in Inr ((model_outputs, loss_dict, metrics_dict), p2)))"

text \<open>\<open>Pipeline.get_eval_loss_dict\<close> of the abstract base class.\<close>

definition Pipeline_get_eval_loss_dict ::
  "('w, 'r, 't) collaborators \<Rightarrow> int \<Rightarrow> ('w, 'r) pipeline
     \<Rightarrow> error + (((string, 't) dict \<times> (string, 't) dict \<times> metrics) \<times> ('w, 'r) pipeline)" where
  "Pipeline_get_eval_loss_dict c step p =
     (let p0 = p\<lparr>training := False\<rparr>
      in case (if world_size p0 > 1 then set_epoch_eval step p0 else Inr p0) of
           Inl e \<Rightarrow> Inl e
         | Inr p1 \<Rightarrow>
             (let ((ray_bundle, batch), p2) = next_eval c step p1;
                  model_outputs = model_forward c p2 ray_bundle (Some batch);
                  metrics_dict = model_get_metrics_dict c p2 model_outputs batch;
                  loss_dict = model_get_loss_dict c p2 model_outputs batch metrics_dict
              in Inr ((model_outputs, loss_dict, metrics_dict), p2\<lparr>training := True\<rparr>)))"

text \<open>
  \<open>VanillaPipeline.get_train_loss_dict\<close>. The two camera-optimizer norms are written
  into the metrics without a check; \<open>[0]\<close> on an empty parameter group raises
  \<open>IndexError\<close>.
\<close>

definition get_train_loss_dict ::
  "('w, 'r, 't) collaborators \<Rightarrow> int \<Rightarrow> ('w, 'r) pipeline
     \<Rightarrow> error + (((string, 't) dict \<times> (string, 't) dict \<times> metrics) \<times> ('w, 'r) pipeline)" where
  "get_train_loss_dict c step p =
     (let ((ray_bundle, batch), p1) = next_train c step p;
          model_outputs = model_forward c p1 ray_bundle None;
          metrics_dict = model_get_metrics_dict c p1 model_outputs batch;
          camera_opt_param_group = camera_optimizer_param_group (config p1) @ ''_train''
      in case (case map_of (dm_get_param_groups c (world p1)) camera_opt_param_group of
                 None \<Rightarrow> Inr metrics_dict
               | Some [] \<Rightarrow> Inl IndexError
               | Some (param # _) \<Rightarrow>
                   Inr (AList.update ''camera_opt_rotation'' (rotation_norm c param)
                         (AList.update ''camera_opt_translation'' (translation_norm c param)
                            metrics_dict))) of
           Inl e \<Rightarrow> Inl e
         | Inr metrics_dict \<Rightarrow>
             (let loss_dict = model_get_loss_dict c p1 model_outputs batch metrics_dict
              in Inr ((model_outputs, loss_dict, metrics_dict), p1)))"

text \<open>\<open>VanillaPipeline.get_eval_loss_dict\<close>; nothing in it can raise.\<close>

definition get_eval_loss_dict ::
  "('w, 'r, 't) collaborators \<Rightarrow> int \<Rightarrow> ('w, 'r) pipeline
     \<Rightarrow> ((string, 't) dict \<times> (string, 't) dict \<times> metrics) \<times> ('w, 'r) pipeline" where
  "get_eval_loss_dict c step p =
     (let p0 = p\<lparr>training := False\<rparr>;
          ((ray_bundle, batch), p1) = next_eval c step p0;
          model_outputs = model_forward c p1 ray_bundle None;
          metrics_dict = model_get_metrics_dict c p1 model_outputs batch;
          loss_dict = model_get_loss_dict c p1 model_outputs batch metrics_dict
      in ((model_outputs, loss_dict, metrics_dict), p1\<lparr>training := True\<rparr>))"

section \<open>Evaluating one image: \<open>get_eval_image_metrics_and_images\<close>\<close>

text \<open>A full-image render; the flag says whether gradient tracking is enabled around it.\<close>

definition render ::
  "('w, 'r, 't) collaborators \<Rightarrow> bool \<Rightarrow> 'r \<Rightarrow> ('w, 'r) pipeline
     \<Rightarrow> (string, 't) dict \<times> ('w, 'r) pipeline" where
  "render c grad camera_ray_bundle p =
     (model_get_outputs_for_camera_ray_bundle c p grad camera_ray_bundle,
      record_call (Render camera_ray_bundle grad) p)"

text \<open>
  The method up to the end of its \<open>with torch.no_grad()\<close> block: the mode switch, the
  fetch, the render and the model's metrics and images.
\<close>

definition eval_image_render ::
  "('w, 'r, 't) collaborators \<Rightarrow> int \<Rightarrow> ('w, 'r) pipeline
     \<Rightarrow> nat \<times> 'r \<times> metrics \<times> (string, 't) dict \<times> ('w, 'r) pipeline" where
  "eval_image_render c step p =
     (let p0 = p\<lparr>training := False\<rparr>;
          ((image_idx, camera_ray_bundle, batch), w) = dm_next_eval_image c step (world p0);
          p1 = p0\<lparr>world := w\<rparr>;
          (outputs, p2) = render c False camera_ray_bundle p1;
          (metrics_dict, images_dict) = model_get_image_metrics_and_images c p2 outputs batch
      in (image_idx, camera_ray_bundle, metrics_dict, images_dict, p2))"

text \<open>The whole method: the two guarded insertions follow, then \<open>self.train()\<close>.\<close>

definition get_eval_image_metrics_and_images ::
  "('w, 'r, 't) collaborators \<Rightarrow> int \<Rightarrow> ('w, 'r) pipeline
     \<Rightarrow> error + ((metrics \<times> (string, 't) dict) \<times> ('w, 'r) pipeline)" where
  "get_eval_image_metrics_and_images c step p =
     (case eval_image_render c step p of
        (image_idx, camera_ray_bundle, metrics_dict, images_dict, p2) \<Rightarrow>
          if dict_contains metrics_dict ''image_idx'' then Inl AssertionError
          else let metrics_dict = AList.update ''image_idx'' (of_nat image_idx) metrics_dict
               in if dict_contains metrics_dict ''num_rays'' then Inl AssertionError
                  else let metrics_dict =
                             AList.update ''num_rays'' (of_nat (rb_len c camera_ray_bundle))
                               metrics_dict
                       in Inr ((metrics_dict, images_dict), p2\<lparr>training := True\<rparr>))"

section \<open>The full evaluation pass: \<open>get_average_eval_image_metrics\<close>\<close>

subsection \<open>Camera-pose optimization of one image\<close>

text \<open>
  The body of \<open>for _ in range(eval_num_pose_iters)\<close>. The loop assigns to the same
  variables \<open>camera_ray_bundle\<close> and \<open>batch\<close> that hold the image fetched before the
  optimization, so they are part of the loop state.
\<close>

fun pose_iterations ::
  "('w, 'r, 't) collaborators \<Rightarrow> nat \<Rightarrow> nat
     \<Rightarrow> ('w, 'r) pipeline \<times> 'r \<times> (string, 't) dict
     \<Rightarrow> error + (('w, 'r) pipeline \<times> 'r \<times> (string, 't) dict)" where
  "pose_iterations c idx 0 s = Inr s"
| "pose_iterations c idx (Suc n) (p, camera_ray_bundle, batch) =
     (let p1 = p\<lparr>world := zero_grad c (world p)\<rparr>;
          (camera_ray_bundle, batch) =
             dm_get_eval_image c p1 idx (eval_image_scale_factor (config p1));
          (outputs, p2) = render c True camera_ray_bundle p1;
          metrics_dict = model_get_metrics_dict c p2 outputs batch;
          loss_dict = model_get_loss_dict c p2 outputs batch metrics_dict
      in case dict_get loss_dict ''rgb_loss'' of
           Inl e \<Rightarrow> Inl e
         | Inr loss \<Rightarrow>
             pose_iterations c idx n
               (p2\<lparr>world := optimizer_step c (backward c loss (world p2))\<rparr>,
                camera_ray_bundle, batch))"

text \<open>The block under \<open>if self.config.eval_optimize_cameras\<close>.\<close>

definition optimize_cameras ::
  "('w, 'r, 't) collaborators \<Rightarrow> nat
     \<Rightarrow> ('w, 'r) pipeline \<times> 'r \<times> (string, 't) dict
     \<Rightarrow> error + (('w, 'r) pipeline \<times> 'r \<times> (string, 't) dict)" where
  "optimize_cameras c idx s =
     (case s of (p, camera_ray_bundle, batch) \<Rightarrow>
        let camera_opt_param_group = camera_optimizer_param_group (config p) @ ''_eval'';
            p1 = p\<lparr>world := dm_initialize_parameters c (world p)\<rparr>;
            param_groups = dm_get_param_groups c (world p1)
        in case dict_get param_groups camera_opt_param_group of
             Inl e \<Rightarrow> Inl e
           | Inr params \<Rightarrow>
               (let p2 = p1\<lparr>world := adam c params (world p1)\<rparr>;
                    p3 = rescale_output_resolution (eval_image_scale_factor (config p2)) p2;
                    p4 = p3\<lparr>training := True\<rparr>
                in case pose_iterations c idx (nat (eval_num_pose_iters (config p4)))
                          (p4, camera_ray_bundle, batch) of
                     Inl e \<Rightarrow> Inl e
                   | Inr (p5, camera_ray_bundle, batch) \<Rightarrow>
                       if eval_image_scale_factor (config p5) = 0 then Inl ZeroDivisionError
                       else Inr ((rescale_output_resolution
                                    (1 / eval_image_scale_factor (config p5)) p5)
                                   \<lparr>training := False\<rparr>,
                                 camera_ray_bundle, batch)))"

subsection \<open>Appearance optimization of one image\<close>

text \<open>
  The body of \<open>for _ in range(eval_num_appearance_iters)\<close>; \<open>side\<close> and
  \<open>half_width\<close> are fixed before the loop.
\<close>

fun appearance_iterations ::
  "('w, 'r, 't) collaborators \<Rightarrow> nat \<Rightarrow> nat \<Rightarrow> nat \<Rightarrow> nat
     \<Rightarrow> ('w, 'r) pipeline \<times> 'r \<times> (string, 't) dict
     \<Rightarrow> error + (('w, 'r) pipeline \<times> 'r \<times> (string, 't) dict)" where
  "appearance_iterations c idx side half_width 0 s = Inr s"
| "appearance_iterations c idx side half_width (Suc n) (p, camera_ray_bundle, batch) =
     (let p1 = p\<lparr>world := zero_grad c (world p)\<rparr>;
          (camera_ray_bundle, batch) =
             dm_get_eval_image c p1 idx (eval_image_scale_factor (config p1));
          (outputs, p2) = render c True camera_ray_bundle p1;
          metrics_dict = model_get_metrics_dict c p2 outputs batch
      in case dict_get batch ''image'' of
           Inl e \<Rightarrow> Inl e
         | Inr image_t \<Rightarrow>
             (case dict_get outputs ''rgb'' of
                Inl e \<Rightarrow> Inl e
              | Inr rgb \<Rightarrow>
                  (let loss =
                         (if side = 0
                          then mse_loss c (slice_left c half_width image_t)
                                 (slice_left c half_width rgb)
                          else mse_loss c (slice_right c half_width image_t)
                                 (slice_right c half_width rgb))
                   in appearance_iterations c idx side half_width n
                        (p2\<lparr>world := optimizer_step c (backward c loss (world p2))\<rparr>,
                         camera_ray_bundle, batch))))"

text \<open>
  The block under \<open>if self.config.eval_optimize_appearance\<close>; \<open>width\<close> is the width
  read from the bundle fetched at the start of the image.
\<close>

definition optimize_appearance ::
  "('w, 'r, 't) collaborators \<Rightarrow> nat \<Rightarrow> nat
     \<Rightarrow> ('w, 'r) pipeline \<times> 'r \<times> (string, 't) dict
     \<Rightarrow> error + (('w, 'r) pipeline \<times> 'r \<times> (string, 't) dict)" where
  "optimize_appearance c idx width s =
     (case s of (p, camera_ray_bundle, batch) \<Rightarrow>
        let p1 = rescale_output_resolution (eval_image_scale_factor (config p)) p;
            p2 = p1\<lparr>training := True\<rparr>;
            p3 = p2\<lparr>world := field_initialize_embedding_appearance_eval c (world p2)\<rparr>;
            appearance_parameters = field_embedding_appearance_eval_parameters c (world p3);
            p4 = p3\<lparr>world := adam c appearance_parameters (world p3)\<rparr>;
            (side, w) = random_choice c (world p4);
            p5 = p4\<lparr>world := w\<rparr>;
            half_width = width div 2
        in case appearance_iterations c idx side half_width
                  (nat (eval_num_appearance_iters (config p5)))
                  (p5, camera_ray_bundle, batch) of
             Inl e \<Rightarrow> Inl e
           | Inr (p6, camera_ray_bundle, batch) \<Rightarrow>
               if eval_image_scale_factor (config p6) = 0 then Inl ZeroDivisionError
               else let p7 = rescale_output_resolution
                               (1 / eval_image_scale_factor (config p6)) p6;
                        p8 = p7\<lparr>world := field_clear_embedding_appearance_eval c (world p7)\<rparr>
                    in Inr (p8\<lparr>training := False\<rparr>, camera_ray_bundle, batch))"

subsection \<open>The final render of an image and its throughput metrics\<close>

text \<open>
  The \<open>with torch.no_grad()\<close> block at the end of an image's turn, for whatever
  \<open>camera_ray_bundle\<close> and \<open>batch\<close> hold at that point.
\<close>

definition final_render_model ::
  "('w, 'r, 't) collaborators \<Rightarrow> ('w, 'r) pipeline \<times> 'r \<times> (string, 't) dict
     \<Rightarrow> metrics \<times> (string, 't) dict \<times> ('w, 'r) pipeline" where
  "final_render_model c s =
     (case s of (p, camera_ray_bundle, batch) \<Rightarrow>
        let (outputs, p1) = render c False camera_ray_bundle p;
            (metrics_dict, images_dict) = model_get_image_metrics_and_images c p1 outputs batch
        in (metrics_dict, images_dict, p1))"

text \<open>
  That block and the four statements after it, for the values \<open>inner_start\<close>,
  \<open>height\<close> and \<open>width\<close> read at the start of the image. Both divisions are float
  divisions and raise on a zero divisor.
\<close>

definition final_render ::
  "('w, 'r, 't) collaborators \<Rightarrow> rat \<Rightarrow> nat \<Rightarrow> nat
     \<Rightarrow> ('w, 'r) pipeline \<times> 'r \<times> (string, 't) dict
     \<Rightarrow> error + ((metrics \<times> (string, 't) dict) \<times> ('w, 'r) pipeline)" where
  "final_render c inner_start height width s =
     (case final_render_model c s of (metrics_dict, images_dict, p1) \<Rightarrow>
        let num_rays = height * width
        in if dict_contains metrics_dict ''num_rays_per_sec'' then Inl AssertionError
           else let (now, w) = py_time c (world p1);
                    p2 = p1\<lparr>world := w\<rparr>
                in if now - inner_start = 0 then Inl ZeroDivisionError
                   else let num_rays_per_sec = of_nat num_rays / (now - inner_start);
                            metrics_dict =
                              AList.update ''num_rays_per_sec'' num_rays_per_sec metrics_dict
                        in if dict_contains metrics_dict ''fps'' then Inl AssertionError
                           else if height * width = 0 then Inl ZeroDivisionError
                           else Inr ((AList.update ''fps''
                                        (num_rays_per_sec / of_nat (height * width))
                                        metrics_dict,
                                      images_dict), p2))"

text \<open>
  One turn of \<open>for idx in range(num_images)\<close>. The first fetch uses the default
  \<open>scale_factor\<close> of \<open>get_eval_image\<close>.

  Modelled from the spec: the data manager is not part of the sources; by the spec's
  interface \<open>get_eval_image(idx, scale_factor=1.0)\<close> the default is \<open>1\<close>.
\<close>

definition evaluate_image ::
  "('w, 'r, 't) collaborators \<Rightarrow> nat \<Rightarrow> ('w, 'r) pipeline
     \<Rightarrow> error + ((metrics \<times> (string, 't) dict) \<times> ('w, 'r) pipeline)" where
  "evaluate_image c idx p =
     (let (camera_ray_bundle, batch) = dm_get_eval_image c p idx 1;
          (inner_start, w) = py_time c (world p);
          p1 = p\<lparr>world := w\<rparr>;
          (height, width) = rb_shape c camera_ray_bundle
      in case (if eval_optimize_cameras (config p1)
               then optimize_cameras c idx (p1, camera_ray_bundle, batch)
               else Inr (p1, camera_ray_bundle, batch)) of
           Inl e \<Rightarrow> Inl e
         | Inr s2 \<Rightarrow>
             (case (if eval_optimize_appearance (config (fst s2))
                    then optimize_appearance c idx width s2
                    else Inr s2) of
                Inl e \<Rightarrow> Inl e
              | Inr s3 \<Rightarrow> final_render c inner_start height width s3))"

text \<open>The loop over the image indices, with the two lists it appends to.\<close>

fun evaluate_images ::
  "('w, 'r, 't) collaborators \<Rightarrow> nat list
     \<Rightarrow> metrics list \<times> (string, 't) dict list \<Rightarrow> ('w, 'r) pipeline
     \<Rightarrow> error + ((metrics list \<times> (string, 't) dict list) \<times> ('w, 'r) pipeline)" where
  "evaluate_images c [] acc p = Inr (acc, p)"
| "evaluate_images c (idx # idxs) (metrics_dict_list, images_dict_list) p =
     (case evaluate_image c idx p of
        Inl e \<Rightarrow> Inl e
      | Inr ((metrics_dict, images_dict), p') \<Rightarrow>
          evaluate_images c idxs
            (metrics_dict_list @ [metrics_dict], images_dict_list @ [images_dict]) p')"

text \<open>
  The whole method. The result is the averaged metrics, with the stacked images when
  \<open>return_imgs\<close> is set; \<open>step\<close> is not used by the source either.
\<close>

definition get_average_eval_image_metrics ::
  "('w, 'r, 't) collaborators \<Rightarrow> int option \<Rightarrow> bool \<Rightarrow> ('w, 'r) pipeline
     \<Rightarrow> error + ((metrics \<times> (string, 't) dict option) \<times> ('w, 'r) pipeline)" where
  "get_average_eval_image_metrics c step return_imgs p =
     (let p0 = p\<lparr>training := False\<rparr>;
          num_images = dm_num_eval_images c (world p0)
      in case evaluate_images c [0..<num_images] ([], []) p0 of
           Inl e \<Rightarrow> Inl e
         | Inr ((metrics_dict_list, images_dict_list), p1) \<Rightarrow>
             (case average_metrics metrics_dict_list of
                Inl e \<Rightarrow> Inl e
              | Inr metrics_dict \<Rightarrow>
                  (case stack_images (torch_stack c) images_dict_list of
                     Inl e \<Rightarrow> Inl e
                   | Inr images_dict \<Rightarrow>
                       Inr ((metrics_dict, if return_imgs then Some images_dict else None),
                            p1\<lparr>training := True\<rparr>))))"

section \<open>A concrete data manager and model\<close>

text \<open>
  A small instance on which the definitions can be run. The world is the clock, which
  advances by half a second at every reading. A ray bundle is its shape. The evaluation
  set has two images of 16 by 16 rays; a fetch yields a bundle at the resolution the
  evaluation cameras currently have and a batch holding the image's index. The model reports
  a \<open>psnr\<close> of 20 for the first image and 30 for the second.
\<close>

definition demo_collaborators :: "(rat, nat \<times> nat, rat) collaborators" where
  "demo_collaborators =
     \<lparr>dm_next_train = (\<lambda>step w. (((4, 4), [(''image'', 0)]), w)),
      dm_next_eval = (\<lambda>step w. (((4, 4), [(''image'', 0)]), w)),
      dm_next_eval_image = (\<lambda>step w. ((1, (4, 4), [(''image'', 1)]), w)),
      dm_get_eval_image =
        (\<lambda>p idx scale_factor.
           ((nat \<lfloor>16 * resolution_scale p\<rfloor>, nat \<lfloor>16 * resolution_scale p\<rfloor>),
            [(''image'', of_nat idx)])),
      dm_num_eval_images = (\<lambda>w. 2),
      dm_get_param_groups = (\<lambda>w. [(''camera_opt_eval'', [0])]),
      dm_initialize_parameters = (\<lambda>w. w),
      model_forward = (\<lambda>p ray_bundle batch. [(''rgb'', 0)]),
      model_get_outputs_for_camera_ray_bundle = (\<lambda>p grad ray_bundle. [(''rgb'', 0)]),
      model_get_metrics_dict = (\<lambda>p outputs batch. [(''psnr'', 20)]),
      model_get_loss_dict = (\<lambda>p outputs batch metrics_dict. [(''rgb_loss'', 0)]),
      model_get_image_metrics_and_images =
        (\<lambda>p outputs batch.
           ([(''psnr'', case map_of batch ''image'' of None \<Rightarrow> 0 | Some i \<Rightarrow> 20 + 10 * i)],
            [(''img'', 0)])),
      field_initialize_embedding_appearance_eval = (\<lambda>w. w),
      field_embedding_appearance_eval_parameters = (\<lambda>w. [0]),
      field_clear_embedding_appearance_eval = (\<lambda>w. w),
      adam = (\<lambda>params w. w),
      zero_grad = (\<lambda>w. w),
      backward = (\<lambda>loss w. w),
      optimizer_step = (\<lambda>w. w),
      random_choice = (\<lambda>w. (0, w)),
      py_time = (\<lambda>w. (w, w + 1 / 2)),
      rb_shape = (\<lambda>ray_bundle. ray_bundle),
      rb_len = (\<lambda>(height, width). height * width),
      translation_norm = (\<lambda>t. t),
      rotation_norm = (\<lambda>t. t),
      slice_left = (\<lambda>n t. t),
      slice_right = (\<lambda>n t. t),
      mse_loss = (\<lambda>a b. (a - b) * (a - b)),
      torch_stack = sum_list\<rparr>"

text \<open>The default configuration of \<open>VanillaPipelineConfig\<close>.\<close>

definition default_config :: vanilla_pipeline_config where
  "default_config =
     \<lparr>camera_optimizer_param_group = ''camera_opt'',
      eval_optimize_cameras = False,
      eval_num_pose_iters = 10,
      eval_optimize_appearance = False,
      eval_num_appearance_iters = 10,
      eval_image_scale_factor = 1 / 8\<rparr>"

definition demo_pipeline :: "(rat, nat \<times> nat) pipeline" where
  "demo_pipeline =
     \<lparr>config = default_config,
      test_mode = ''val'',
      world_size = 1,
      training = True,
      train_sampler = None,
      eval_sampler = None,
      resolution_scale = 1,
      world = 0,
      calls = []\<rparr>"

section \<open>Facts about dictionaries and \<open>str.replace\<close>\<close>

text \<open>
  A dictionary comprehension that rewrites keys: the value of a key of the result is the value
  of the last item whose rewritten key it is.
\<close>

lemma map_of_fold_update:
  "map_of (fold (\<lambda>(key, val). AList.update (f key) val) ls acc) =
     map_of acc ++ map_of (rev (map (\<lambda>(key, val). (f key, val)) ls))"
proof (induction ls arbitrary: acc)
  case Nil
  show ?case by simp
next
  case (Cons item ls)
  obtain key val where item: "item = (key, val)" by (cases item)
  show ?case
    by (simp add: item Cons.IH update_conv' fun_eq_iff map_add_def split: option.splits)
qed

lemma map_of_fold_delete:
  "map_of (fold AList.delete ks d) k = (if k \<in> set ks then None else map_of d k)"
  by (induction ks arbitrary: d) (auto simp: delete_conv')

text \<open>A string without an occurrence of \<open>old\<close> is left as it is.\<close>

lemma str_replace_unchanged:
  "old \<noteq> [] \<Longrightarrow> \<not> sublist old s \<Longrightarrow> str_replace old new s = s"
proof (induction s)
  case Nil
  then show ?case by (simp add: str_replace.simps)
next
  case (Cons ch s)
  have "\<not> prefix old (ch # s)" using Cons.prems(2) by (meson prefix_imp_sublist)
  moreover have "\<not> sublist old s" using Cons.prems(2) by (meson sublist_Cons_right)
  ultimately show ?case using Cons by (subst str_replace.simps) simp
qed

text \<open>
  The first occurrence of \<open>old\<close> is replaced wherever it starts, and the scan goes on
  behind it.
\<close>

lemma str_replace_first:
  "old \<noteq> [] \<Longrightarrow> \<not> sublist old (a @ butlast old)
     \<Longrightarrow> str_replace old new (a @ old @ b) = a @ new @ str_replace old new b"
proof (induction a)
  case Nil
  then show ?case by (subst str_replace.simps) simp
next
  case (Cons ch a)
  have no_prefix: "\<not> prefix old ((ch # a) @ old @ b)"
  proof
    assume "prefix old ((ch # a) @ old @ b)"
    moreover have "prefix ((ch # a) @ butlast old) ((ch # a) @ old @ b)"
      using Cons.prems(1)
      by (metis append_butlast_last_id append.assoc prefix_def same_prefix_prefix prefixI)
    moreover have "length old \<le> length ((ch # a) @ butlast old)"
      using Cons.prems(1) by (cases old) auto
    ultimately have "prefix old ((ch # a) @ butlast old)" by (rule prefix_length_prefix)
    then show False using Cons.prems(2) by (meson prefix_imp_sublist)
  qed
  have "\<not> sublist old (a @ butlast old)" using Cons.prems(2) by (simp add: sublist_Cons_right)
  then show ?case using Cons no_prefix by (subst str_replace.simps) simp
qed

section \<open>Facts about the averaging loop\<close>

lemma collect_key_ok:
  "\<forall>d\<in>set l. dict_contains d k \<Longrightarrow> collect_key k l = Inr (map (\<lambda>d. the (map_of d k)) l)"
  by (induction l) (auto simp: dict_get_def dict_contains_def split: option.splits sum.splits)

lemma collect_key_Inr:
  "collect_key k l = Inr vs \<Longrightarrow> \<forall>d\<in>set l. dict_contains d k"
  by (induction l arbitrary: vs)
     (auto simp: dict_get_def dict_contains_def split: option.splits sum.splits)

lemma collect_key_Inl:
  "collect_key k l = Inl e \<Longrightarrow> e = KeyError k \<and> (\<exists>d\<in>set l. \<not> dict_contains d k)"
  by (induction l) (auto simp: dict_get_def dict_contains_def split: option.splits sum.splits)

lemma average_keys_ok:
  "(\<forall>k\<in>set ks. \<forall>d\<in>set l. dict_contains d k) \<Longrightarrow>
   \<exists>r. average_keys ks l acc = Inr r \<and>
       (\<forall>k. map_of r k = (if k \<in> set ks
                           then Some (tensor_mean (map (\<lambda>d. the (map_of d k)) l))
                           else map_of acc k))"
proof (induction ks arbitrary: acc)
  case Nil
  show ?case by simp
next
  case (Cons key ks)
  let ?acc = "AList.update key (tensor_mean (map (\<lambda>d. the (map_of d key)) l)) acc"
  have c: "collect_key key l = Inr (map (\<lambda>d. the (map_of d key)) l)"
    using Cons.prems by (simp add: collect_key_ok)
  from Cons.prems have "\<forall>k\<in>set ks. \<forall>d\<in>set l. dict_contains d k" by simp
  from Cons.IH [OF this, of ?acc]
  obtain r where r: "average_keys ks l ?acc = Inr r"
    "\<forall>k. map_of r k = (if k \<in> set ks
                           then Some (tensor_mean (map (\<lambda>d. the (map_of d k)) l))
                           else map_of ?acc k)"
    by blast
  show ?case using r by (simp add: c update_conv')
qed

lemma average_keys_Inr:
  "average_keys ks l acc = Inr r \<Longrightarrow> \<forall>k\<in>set ks. \<forall>d\<in>set l. dict_contains d k"
proof (induction ks arbitrary: acc)
  case Nil
  show ?case by simp
next
  case (Cons key ks)
  from Cons.prems obtain vals where c: "collect_key key l = Inr vals"
    and v: "average_keys ks l (AList.update key (tensor_mean vals) acc) = Inr r"
    by (auto split: sum.splits)
  from collect_key_Inr [OF c] Cons.IH [OF v] show ?case by simp
qed

lemma average_keys_keys:
  "average_keys ks l acc = Inr r \<Longrightarrow> distinct ks \<Longrightarrow> set ks \<inter> set (map fst acc) = {}
     \<Longrightarrow> map fst r = map fst acc @ ks"
proof (induction ks arbitrary: acc)
  case Nil
  then show ?case by simp
next
  case (Cons key ks)
  from Cons.prems(1) obtain vals where
    v: "average_keys ks l (AList.update key (tensor_mean vals) acc) = Inr r"
    by (auto split: sum.splits)
  have k: "map fst (AList.update key (tensor_mean vals) acc) = map fst acc @ [key]"
    using Cons.prems(3) by (simp add: update_keys)
  have "set ks \<inter> set (map fst (AList.update key (tensor_mean vals) acc)) = {}"
    unfolding k using Cons.prems(2,3) by auto
  from Cons.IH [OF v _ this] Cons.prems(2) show ?case
    by (simp add: k)
qed

lemma average_keys_Inl:
  "average_keys ks l acc = Inl e \<Longrightarrow>
     \<exists>k\<in>set ks. e = KeyError k \<and> (\<exists>d\<in>set l. \<not> dict_contains d k)"
proof (induction ks arbitrary: acc)
  case Nil
  then show ?case by simp
next
  case (Cons key ks)
  show ?case
  proof (cases "collect_key key l")
    case (Inl e')
    then show ?thesis using Cons.prems collect_key_Inl [OF Inl] by simp
  next
    case (Inr vals)
    then have "average_keys ks l (AList.update key (tensor_mean vals) acc) = Inl e"
      using Cons.prems by simp
    from Cons.IH [OF this] show ?thesis by auto
  qed
qed

lemma average_metrics_fails_iff:
  "(\<exists>e. average_metrics l = Inl e) \<longleftrightarrow>
     l = [] \<or> (\<exists>k\<in>set (map fst (hd l)). \<exists>d\<in>set l. \<not> dict_contains d k)"
proof (cases l)
  case Nil
  then show ?thesis by (simp add: average_metrics_def)
next
  case (Cons first rest)
  show ?thesis
  proof (cases "\<forall>k\<in>set (map fst first). \<forall>d\<in>set l. dict_contains d k")
    case True
    from average_keys_ok [OF True, of "[]"] show ?thesis
      using True Cons by (auto simp: average_metrics_def)
  next
    case False
    have "\<exists>e. average_keys (map fst first) l [] = Inl e"
    proof (cases "average_keys (map fst first) l []")
      case (Inl e)
      then show ?thesis by simp
    next
      case (Inr r)
      from average_keys_Inr [OF Inr] False show ?thesis by simp
    qed
    then show ?thesis using False Cons by (auto simp: average_metrics_def)
  qed
qed

section \<open>Checkpoint loading\<close>

text \<open>
  Claim C6, as the code has it: \<open>load_pipeline\<close> deletes the text \<open>module.\<close> from every
  key wherever it occurs (the first occurrence is removed at whatever position it starts and
  the scan goes on behind it; a key without an occurrence is kept), not only where it is a
  leading prefix. A key of the applied state carries the value of the last checkpoint item
  whose rewritten key it is; in inference mode exactly the six bookkeeping keys are absent
  from the applied state and every other key is kept. The checkpoint with the keys
  \<open>module.model.w\<close> and \<open>datamanager.train_camera_optimizer.pose_adjustment\<close>, loaded in
  inference mode, applies \<open>model.w\<close> alone.
\<close>

theorem load_pipeline_applied_state:
  "map_of (load_pipeline_state mode loaded_state) k =
     (if mode = ''inference'' \<and> k \<in> set inference_popped_keys then None
      else map_of (rev (map (\<lambda>(key, val). (str_replace ''module.'' '''' key, val))
                          loaded_state)) k)
   \<and> (\<not> sublist ''module.'' (a @ ''module'') \<longrightarrow>
        str_replace ''module.'' '''' (a @ ''module.'' @ b) = a @ str_replace ''module.'' '''' b)
   \<and> (\<not> sublist ''module.'' key \<longrightarrow> str_replace ''module.'' '''' key = key)
   \<and> load_pipeline_state ''inference''
        [(''module.model.w'', T),
         (''datamanager.train_camera_optimizer.pose_adjustment'', T2)] = [(''model.w'', T)]
   \<and> load_pipeline load_state_dict mode loaded_state self =
        load_state_dict (load_pipeline_state mode loaded_state) self"
proof -
  have lookup: "map_of (load_pipeline_state mode loaded_state) k =
     (if mode = ''inference'' \<and> k \<in> set inference_popped_keys then None
      else map_of (rev (map (\<lambda>(key, val). (str_replace ''module.'' '''' key, val))
                          loaded_state)) k)"
    by (simp add: load_pipeline_state_def Let_def map_of_fold_delete map_of_fold_update)
  have first: "\<not> sublist ''module.'' (a @ ''module'') \<longrightarrow>
        str_replace ''module.'' '''' (a @ ''module.'' @ b) = a @ str_replace ''module.'' '''' b"
    using str_replace_first [of "''module.''" a "''''" b] by simp
  have unchanged: "\<not> sublist ''module.'' key \<longrightarrow> str_replace ''module.'' '''' key = key"
    using str_replace_unchanged [of "''module.''" key "''''"] by simp
  have s1: "str_replace ''module.'' '''' ''module.model.w'' = ''model.w''" by code_simp
  have s2: "str_replace ''module.'' '''' ''datamanager.train_camera_optimizer.pose_adjustment''
              = ''datamanager.train_camera_optimizer.pose_adjustment''"
    by code_simp
  have example: "load_pipeline_state ''inference''
        [(''module.model.w'', T),
         (''datamanager.train_camera_optimizer.pose_adjustment'', T2)] = [(''model.w'', T)]"
    by (simp add: load_pipeline_state_def inference_popped_keys_def s1 s2)
  show ?thesis using lookup first unchanged example by (simp add: load_pipeline_def)
qed

text \<open>
  The theorem at a checkpoint written by a wrapped model, whose keys carry \<open>module.\<close>
  behind \<open>_model.\<close>.
\<close>

theorem load_pipeline_applied_state_witness:
  "str_replace ''module.'' '''' (''_model.'' @ ''module.'' @ ''field.w'') = ''_model.field.w''
   \<and> str_replace ''module.'' '''' ''model.w'' = ''model.w''
   \<and> map_of (load_pipeline_state ''inference''
        [(''_model.module.field.w'', 1 :: nat),
         (''datamanager.eval_ray_generator.image_coords'', 2)]) ''_model.field.w'' = Some 1"
proof -
  have h1: "\<not> sublist ''module.'' (''_model.'' @ ''module'')" by code_simp
  have h2: "\<not> sublist ''module.'' ''field.w''" by code_simp
  have h3: "\<not> sublist ''module.'' ''model.w''" by code_simp
  have h4: "''_model.field.w'' \<notin> set inference_popped_keys"
    by (simp add: inference_popped_keys_def)
  note t = load_pipeline_applied_state
  from t [where key = "''field.w''", THEN conjunct2, THEN conjunct2, THEN conjunct1] h2
  have "str_replace ''module.'' '''' ''field.w'' = ''field.w''" by blast
  with t [where a = "''_model.''" and b = "''field.w''", THEN conjunct2, THEN conjunct1] h1
  have a: "str_replace ''module.'' '''' (''_model.'' @ ''module.'' @ ''field.w'')
             = ''_model.field.w''"
    by simp
  from t [where key = "''model.w''", THEN conjunct2, THEN conjunct2, THEN conjunct1] h3
  have b: "str_replace ''module.'' '''' ''model.w'' = ''model.w''" by blast
  have h5: "\<not> sublist ''module.'' ''datamanager.eval_ray_generator.image_coords''"
    by code_simp
  from t [where key = "''datamanager.eval_ray_generator.image_coords''",
          THEN conjunct2, THEN conjunct2, THEN conjunct1] h5
  have d: "str_replace ''module.'' '''' ''datamanager.eval_ray_generator.image_coords''
             = ''datamanager.eval_ray_generator.image_coords''"
    by blast
  from t [where mode = "''inference''" and k = "''_model.field.w''"
      and loaded_state = "[(''_model.module.field.w'', 1 :: nat),
         (''datamanager.eval_ray_generator.image_coords'', 2)]", THEN conjunct1] h4 a d
  have c: "map_of (load_pipeline_state ''inference''
        [(''_model.module.field.w'', 1 :: nat),
         (''datamanager.eval_ray_generator.image_coords'', 2)]) ''_model.field.w'' = Some 1"
    by simp
  from a b c show ?thesis by blast
qed

text \<open>
  Claim C6 as stated fails: in the key \<open>_model.module.field.w\<close> the text \<open>module.\<close> is not
  a prefix, and the code removes it all the same, where stripping a prefix keeps the key.
\<close>

theorem load_pipeline_strips_inner_module:
  "load_pipeline_state ''inference'' [(''_model.module.field.w'', 1 :: nat)]
     = [(''_model.field.w'', 1)]
   \<and> spec_load_pipeline_state ''inference'' [(''_model.module.field.w'', 1 :: nat)]
     = [(''_model.module.field.w'', 1)]"
  by code_simp

section \<open>Aggregation of the per-image metrics\<close>

text \<open>
  Claim C7: for a non-empty list of per-image metrics dictionaries that all have the key set
  of the first one, the aggregation returns a dictionary that holds, for every key of that set
  and for no other key, the sum of the per-image values divided by their number; its keys
  come in the order of the first dictionary. Two images with \<open>psnr\<close> 20 and 30 give
  \<open>psnr\<close> 25. (Values are exact rationals.)
\<close>

theorem average_metrics_is_mean:
  assumes "l \<noteq> []" and "list_all (\<lambda>d. set (map fst d) = set (map fst (hd l))) l"
  shows "(\<exists>r. average_metrics l = Inr r
            \<and> (\<forall>k. map_of r k =
                  (if k \<in> set (map fst (hd l))
                   then Some (sum_list (map (\<lambda>d. the (map_of d k)) l) / of_nat (length l))
                   else None))
            \<and> (distinct (map fst (hd l)) \<longrightarrow> map fst r = map fst (hd l)))
         \<and> average_metrics [[(''psnr'', 20)], [(''psnr'', 30)]] = Inr [(''psnr'', 25)]"
proof -
  obtain first rest where l: "l = first # rest" using assms(1) by (cases l) auto
  have "\<forall>k\<in>set (map fst first). \<forall>d\<in>set l. dict_contains d k"
  proof (intro ballI)
    fix k d assume k: "k \<in> set (map fst first)" and d: "d \<in> set l"
    from assms(2) have "\<forall>d\<in>set l. set (map fst d) = set (map fst first)"
      by (simp add: l list_all_iff)
    with d have "set (map fst d) = set (map fst first)" by blast
    with k have "k \<in> fst ` set d" by simp
    then show "dict_contains d k"
      by (simp add: dict_contains_def map_of_eq_None_iff)
  qed
  from average_keys_ok [OF this, of "[]"] obtain r where
    r: "average_keys (map fst first) l [] = Inr r"
    and v: "\<forall>k. map_of r k = (if k \<in> set (map fst first)
              then Some (tensor_mean (map (\<lambda>d. the (map_of d k)) l)) else map_of [] k)"
    by blast
  have "distinct (map fst first) \<longrightarrow> map fst r = map fst first"
    using average_keys_keys [OF r] by simp
  then have "\<exists>r. average_metrics l = Inr r
            \<and> (\<forall>k. map_of r k =
                  (if k \<in> set (map fst (hd l))
                   then Some (sum_list (map (\<lambda>d. the (map_of d k)) l) / of_nat (length l))
                   else None))
            \<and> (distinct (map fst (hd l)) \<longrightarrow> map fst r = map fst (hd l))"
    using r v by (simp add: average_metrics_def l tensor_mean_def)
  moreover have "average_metrics [[(''psnr'', 20)], [(''psnr'', 30)]] = Inr [(''psnr'', 25)]"
    by (simp add: average_metrics_def dict_get_def tensor_mean_def)
  ultimately show ?thesis by blast
qed

text \<open>The theorem at two dictionaries with the same keys in different orders.\<close>

theorem average_metrics_is_mean_witness:
  "\<exists>r. average_metrics [[(''psnr'', 20), (''ssim'', 1 / 2)], [(''ssim'', 1), (''psnr'', 30)]] = Inr r
      \<and> map_of r ''psnr'' = Some 25 \<and> map_of r ''ssim'' = Some (3 / 4)
      \<and> map fst r = [''psnr'', ''ssim'']"
proof -
  let ?l = "[[(''psnr'', 20), (''ssim'', 1 / 2)], [(''ssim'', 1), (''psnr'', 30 :: rat)]]"
  have h1: "?l \<noteq> []" by simp
  have h2: "list_all (\<lambda>d. set (map fst d) = set (map fst (hd ?l))) ?l" by auto
  from average_metrics_is_mean [OF h1 h2] obtain r where
    r: "average_metrics ?l = Inr r"
    and v: "\<forall>k. map_of r k =
                  (if k \<in> set (map fst (hd ?l))
                   then Some (sum_list (map (\<lambda>d. the (map_of d k)) ?l) / of_nat (length ?l))
                   else None)"
    and o: "distinct (map fst (hd ?l)) \<longrightarrow> map fst r = map fst (hd ?l)"
    by blast
  from v have a: "map_of r ''psnr'' = Some 25" and b: "map_of r ''ssim'' = Some (3 / 4)"
    by simp_all
  from o have c: "map fst r = [''psnr'', ''ssim'']" by simp
  from r a b c show ?thesis by (intro exI [of _ r] conjI)
qed

text \<open>
  Claim C5, as the code has it: the aggregation of the metrics fails exactly when the list is
  empty (\<open>IndexError\<close>) or some dictionary of the list lacks a key of the first dictionary
  (\<open>KeyError\<close> for such a key). It iterates over the keys of the first dictionary only: a
  result holds exactly those keys, so a key that only a later dictionary has is left out
  without a failure.
\<close>

theorem average_metrics_failure:
  "((\<exists>e. average_metrics l = Inl e) \<longleftrightarrow>
      l = [] \<or> (\<exists>k\<in>set (map fst (hd l)). \<exists>d\<in>set l. \<not> dict_contains d k))
   \<and> average_metrics [] = Inl IndexError
   \<and> (l \<noteq> [] \<and> average_metrics l = Inl e \<longrightarrow>
        (\<exists>k\<in>set (map fst (hd l)). e = KeyError k \<and> (\<exists>d\<in>set l. \<not> dict_contains d k)))
   \<and> (average_metrics l = Inr r \<longrightarrow> set (map fst r) = set (map fst (hd l)))"
proof -
  have keys: "average_metrics l = Inr r \<longrightarrow> set (map fst r) = set (map fst (hd l))"
  proof
    assume a: "average_metrics l = Inr r"
    then obtain first rest where l: "l = first # rest"
      by (cases l) (auto simp: average_metrics_def)
    from a have r: "average_keys (map fst first) l [] = Inr r"
      by (simp add: average_metrics_def l)
    from average_keys_ok [OF average_keys_Inr [OF r], of "[]"] r
    have "\<forall>k. map_of r k \<noteq> None \<longleftrightarrow> k \<in> set (map fst first)" by auto
    then have "\<forall>k. k \<in> fst ` set r \<longleftrightarrow> k \<in> set (map fst first)"
      by (simp add: map_of_eq_None_iff)
    then show "set (map fst r) = set (map fst (hd l))" by (auto simp: l)
  qed
  have err: "l \<noteq> [] \<and> average_metrics l = Inl e \<longrightarrow>
        (\<exists>k\<in>set (map fst (hd l)). e = KeyError k \<and> (\<exists>d\<in>set l. \<not> dict_contains d k))"
  proof
    assume a: "l \<noteq> [] \<and> average_metrics l = Inl e"
    then obtain first rest where l: "l = first # rest" by (cases l) auto
    from a have "average_keys (map fst first) l [] = Inl e"
      by (simp add: average_metrics_def l)
    from average_keys_Inl [OF this] show
      "\<exists>k\<in>set (map fst (hd l)). e = KeyError k \<and> (\<exists>d\<in>set l. \<not> dict_contains d k)"
      by (simp add: l)
  qed
  have "average_metrics [] = Inl IndexError" by (simp add: average_metrics_def)
  with average_metrics_fails_iff [of l] keys err show ?thesis by blast
qed

text \<open>The theorem at a list whose second dictionary lacks a key of the first.\<close>

theorem average_metrics_failure_witness:
  "average_metrics [[(''psnr'', 20), (''ssim'', 1)], [(''psnr'', 30)]] = Inl (KeyError ''ssim'')"
proof -
  let ?l = "[[(''psnr'', 20), (''ssim'', 1)], [(''psnr'', 30 :: rat)]]"
  have h: "\<exists>k\<in>set (map fst (hd ?l)). \<exists>d\<in>set ?l. \<not> dict_contains d k"
    by (simp add: dict_contains_def)
  from average_metrics_failure [of ?l] h obtain e where e: "average_metrics ?l = Inl e"
    by blast
  from average_metrics_failure [of ?l e] e
  obtain k where "k \<in> set (map fst (hd ?l))" "e = KeyError k"
    "\<exists>d\<in>set ?l. \<not> dict_contains d k"
    by blast
  then have "e = KeyError ''ssim''" by (auto simp: dict_contains_def)
  with e show ?thesis by simp
qed

text \<open>
  Claim C5 as stated fails: the second dictionary has a key the first one lacks, the key sets
  differ, and the aggregation returns a result without that key.
\<close>

theorem average_metrics_omits_extra_keys:
  "set (map fst [(''psnr'', 20 :: rat)]) \<noteq> set (map fst [(''psnr'', 30 :: rat), (''ssim'', 1)])
   \<and> average_metrics [[(''psnr'', 20)], [(''psnr'', 30), (''ssim'', 1)]] = Inr [(''psnr'', 25)]"
  by code_simp

end
